theory Spec2Isabelle
  imports Main "HOL-Library.Word"
begin

section \<open>Data model of the lambda and lambdahttp packages\<close>

text \<open>
  Both packages alias \<^verbatim>\<open>events.APIGatewayV2HTTPRequest\<close> and
  \<^verbatim>\<open>events.APIGatewayV2HTTPResponse\<close>. Only the fields the two
  source files read or write are kept. Go strings are byte sequences, as \<open>string\<close> is.
\<close>

type_synonym headers = "string \<rightharpoonup> string"

type_synonym bytes = "8 word list"

record http_info =
  Method :: string
  Path :: string
  UserAgent :: string
  SourceIP :: string

record request =
  RawPath :: string
  RawQueryString :: string
  Headers :: headers
  HTTP :: http_info

text \<open>The header map of a response is a Go map and may be nil: \<open>None\<close>.\<close>

record response =
  StatusCode :: int
  RespHeaders :: "headers option"
  Body :: string

text \<open>
  Errors. \<open>Coded c m\<close> is an error of the sugar error package (errorx, xerror),
  which carries an HTTP status code; \<open>Plain m\<close> is what \<^verbatim>\<open>errors.New\<close> builds.
\<close>

datatype error = Coded int string | Plain string

definition NotImplemented :: "string \<Rightarrow> error" where
  "NotImplemented m = Coded 501 m"

definition NotFound :: "string \<Rightarrow> error" where
  "NotFound m = Coded 404 m"

definition NotAcceptable :: "string \<Rightarrow> error" where
  "NotAcceptable m = Coded 406 m"

definition errors_New :: "string \<Rightarrow> error" where
  "errors_New m = Plain m"

fun error_message :: "error \<Rightarrow> string" where
  "error_message (Coded c m) = m"
| "error_message (Plain m) = m"

text \<open>
  Modelled from the spec: \<^verbatim>\<open>Error\<close>, the constructor of error responses that both
  packages call, is declared in a file of the repository that is not among the
  sources. The spec's error response contract renders every terminal error state as a
  structured response with an HTTP-appropriate status code (404 for no matching route,
  501 for a handler producing nothing, 500-class for recovered panics, 400-class for
  malformed or unauthenticated requests), and the recovered response carries the
  failure's string representation. The spec gives the response no header; the map
  field keeps Go's zero value, nil.
\<close>

definition Error :: "error \<Rightarrow> response" where
  "Error e =
     \<lparr>StatusCode = (case e of Coded c m \<Rightarrow> c | Plain m \<Rightarrow> 500),
      RespHeaders = None,
      Body = error_message e\<rparr>"

text \<open>
  What a Go call can do: return, or panic with a value. The value of a panic is kept as
  the string \<^verbatim>\<open>fmt.Sprint\<close> renders it to; \<open>PanicNil\<close> is \<^verbatim>\<open>panic(nil)\<close>, which
  the module's language version (go 1.19) lets through as a nil panic value.
\<close>

datatype panic_value = PanicNil | PanicValue string

datatype 'a outcome = Returned 'a | Panicked panic_value

definition nil_dereference :: panic_value where
  "nil_dereference = PanicValue ''runtime error: invalid memory address or nil pointer dereference''"

text \<open>
  Handlers. A \<^verbatim>\<open>Func\<close> takes the context and the request and returns a pointer to a
  response, which may be nil. Handlers act on the world outside (type \<open>'w\<close>), passed
  through explicitly. The context carries the trace identifier and the rest of the
  chain: \<open>NextHandler\<close> is what \<^verbatim>\<open>router.Next\<close> runs.
\<close>

type_synonym 'w action = "request \<Rightarrow> 'w \<Rightarrow> response option outcome \<times> 'w"

record 'w ctx =
  TraceID :: string
  NextHandler :: "'w action"

type_synonym 'w Func = "'w ctx \<Rightarrow> 'w action"

definition Next :: "'w Func" where
  "Next c req w = NextHandler c req w"

text \<open>
  The router library. \<open>Match\<close> looks a method and a path up in the routing table and
  yields the handler chain of the matched endpoint, first handler and the rest, or
  nothing. \<open>ChainEnd\<close> is what \<^verbatim>\<open>router.Next\<close> does once the chain is used up.
\<close>

record 'w Router =
  Match :: "string \<Rightarrow> string \<Rightarrow> ('w Func \<times> 'w Func list) option"
  ChainEnd :: "'w action"

fun WithNextHandler :: "'w Router \<Rightarrow> string \<Rightarrow> 'w Func list \<Rightarrow> 'w ctx" where
  "WithNextHandler r t [] = \<lparr>TraceID = t, NextHandler = ChainEnd r\<rparr>"
| "WithNextHandler r t (h # hs) =
     \<lparr>TraceID = t, NextHandler = (\<lambda>req w. h (WithNextHandler r t hs) req w)\<rparr>"

text \<open>
  The libraries the two packages call, as parameters: the header keys and accessors of
  httpx/xhttp, the timestamp check and signature decoder, the two hash functions (an
  array of 16 bytes is a 128-bit word, one of 32 bytes a 256-bit word), ECDSA
  verification and the JSON printer. \<open>BuildContext\<close> is of this repository but not among
  the sources; of the context it builds, only the trace identifier is read here.
\<close>

record PublicKey =
  Curve :: string
  X :: int
  Y :: int

record lib =
  KeyContentType :: string
  KeyAppID :: string
  KeyClientID :: string
  KeyTimestamp :: string
  KeyAuthorization :: string
  KeyTraceID :: string
  GetHeader :: "headers \<Rightarrow> string \<Rightarrow> string"
  CheckTimestamp :: "headers \<Rightarrow> error option"
  DecodeSign :: "headers \<Rightarrow> error + bytes"
  VerifyASN1 :: "PublicKey \<Rightarrow> bytes \<Rightarrow> bytes \<Rightarrow> bool"
  md5_Sum :: "string \<Rightarrow> 128 word"
  sha256_Sum256 :: "string \<Rightarrow> 256 word"
  ToString :: "headers \<Rightarrow> string"
  BuildContext :: "request \<Rightarrow> string"

definition SetTraceID :: "lib \<Rightarrow> headers \<Rightarrow> string \<Rightarrow> headers" where
  "SetTraceID L h t = h(KeyTraceID L \<mapsto> t)"

text \<open>Log records: level, message and fields.\<close>

datatype log_level = Info | ErrorLevel

datatype log_field = log_String string string | log_Int string int | log_Any string panic_value

type_synonym log_record = "log_level \<times> string \<times> log_field list"

section \<open>Router.Handle\<close>

text \<open>
  The body of \<^verbatim>\<open>Handle\<close> below the \<^verbatim>\<open>defer\<close>: the named result \<open>resp\<close> when the
  body returns, or the panic of the handler chain (\<open>resp\<close> is then still nil).
  The message of the not-found error is the one difference between the packages.
\<close>

definition Handle_body ::
  "string \<Rightarrow> 'w Router \<Rightarrow> string \<Rightarrow> request \<Rightarrow> 'w \<Rightarrow> response option outcome \<times> 'w" where
  "Handle_body notFoundMsg r traceID req w =
     (case Match r (Method (HTTP req)) (RawPath req) of
        Some (handler, rest) \<Rightarrow>
          (case handler (WithNextHandler r traceID rest) req w of
             (Panicked v, w') \<Rightarrow> (Panicked v, w')
           | (Returned None, w') \<Rightarrow>
               (Returned (Some (Error (NotImplemented ''no response from handler''))), w')
           | (Returned (Some resp), w') \<Rightarrow> (Returned (Some resp), w'))
      | None \<Rightarrow> (Returned (Some (Error (NotFound notFoundMsg))), w))"

text \<open>
  The deferred function past the recovery: it reads \<^verbatim>\<open>resp.StatusCode\<close> (a nil \<open>resp\<close>
  panics there), logs by status and body length, makes the header map if it is nil and
  sets the trace identifier.
\<close>

fun Handle_complete ::
  "lib \<Rightarrow> string \<Rightarrow> string \<Rightarrow> string \<Rightarrow> response option
     \<Rightarrow> response outcome \<times> log_record list" where
  "Handle_complete L okMsg failMsg traceID None = (Panicked nil_dereference, [])"
| "Handle_complete L okMsg failMsg traceID (Some resp) =
     (Returned
        (resp\<lparr>RespHeaders :=
           Some (SetTraceID L
             (case RespHeaders resp of None \<Rightarrow> Map.empty | Some h \<Rightarrow> h) traceID)\<rparr>),
      [if StatusCode resp < 400
       then (Info, okMsg, [log_Int ''status_code'' (StatusCode resp)])
       else if length (Body resp) < 1024
       then (ErrorLevel, failMsg,
             [log_Int ''status_code'' (StatusCode resp), log_String ''body'' (Body resp)])
       else (ErrorLevel, failMsg, [log_Int ''status_code'' (StatusCode resp)])])"

text \<open>
  The deferred function. \<^verbatim>\<open>recover()\<close> yields the value of the panic in flight, and
  nil when there is none or when the value itself is nil. A non-nil value is logged and
  turned into the error response, and the deferred function returns at once. In the
  other cases it goes on with \<open>resp\<close> as the body left it: nil after a panic. The
  three messages are the package's.
\<close>

fun Handle_deferred ::
  "lib \<Rightarrow> string \<Rightarrow> string \<Rightarrow> string \<Rightarrow> string \<Rightarrow> response option outcome
     \<Rightarrow> response outcome \<times> log_record list" where
  "Handle_deferred L panicMsg okMsg failMsg traceID (Panicked (PanicValue s)) =
     (Returned (Error (errors_New s)),
      [(ErrorLevel, panicMsg, [log_Any ''error'' (PanicValue s)])])"
| "Handle_deferred L panicMsg okMsg failMsg traceID (Panicked PanicNil) =
     Handle_complete L okMsg failMsg traceID None"
| "Handle_deferred L panicMsg okMsg failMsg traceID (Returned resp) =
     Handle_complete L okMsg failMsg traceID resp"

definition received :: "lib \<Rightarrow> string \<Rightarrow> request \<Rightarrow> log_record" where
  "received L m req =
     (Info, m,
      [log_String ''header'' (ToString L (Headers req)),
       log_String ''path'' (RawPath req),
       log_String ''query'' (RawQueryString req),
       log_String ''method'' (Method (HTTP req)),
       log_String ''user_agent'' (UserAgent (HTTP req)),
       log_String ''source_ip'' (SourceIP (HTTP req))])"

text \<open>The result of a call of \<^verbatim>\<open>Handle\<close>: what it returns, what it logged, the world after.\<close>

record 'w handled =
  result :: "response outcome"
  logged :: "log_record list"
  world :: 'w

definition lambda_Handle :: "lib \<Rightarrow> 'w Router \<Rightarrow> request \<Rightarrow> 'w \<Rightarrow> 'w handled" where
  "lambda_Handle L r req w =
     (let traceID = BuildContext L req;
          (body, w') = Handle_body ''endpoint not found'' r traceID req w;
          (res, lg) = Handle_deferred L ''caught a panic'' ''succeeded'' ''failed'' traceID body
      in \<lparr>result = res, logged = received L ''received'' req # lg, world = w'\<rparr>)"

definition lambdahttp_Handle :: "lib \<Rightarrow> 'w Router \<Rightarrow> request \<Rightarrow> 'w \<Rightarrow> 'w handled" where
  "lambdahttp_Handle L r req w =
     (let traceID = BuildContext L req;
          (body, w') =
             Handle_body (''endpoint not found: '' @ Method (HTTP req) @ '' '' @ RawPath req)
               r traceID req w;
          (res, lg) = Handle_deferred L ''Panic'' ''End'' ''End'' traceID body
      in \<lparr>result = res, logged = received L ''Start'' req # lg, world = w'\<rparr>)"

section \<open>The canonical signing string and its digest\<close>

text \<open>\<^verbatim>\<open>bytes.Buffer.WriteString\<close> appends to the buffer.\<close>

definition WriteString :: "string \<Rightarrow> string \<Rightarrow> string" where
  "WriteString buf s = buf @ s"

text \<open>\<^verbatim>\<open>hash[:]\<close>: the bytes of the array, first byte first.\<close>

definition slice_of :: "'a::len word \<Rightarrow> bytes" where
  "slice_of h = map (\<lambda>i. ucast (drop_bit (8 * i) h)) (rev [0..<LENGTH('a) div 8])"

definition lambdahttp_getMessageHashForSigning :: "lib \<Rightarrow> request \<Rightarrow> bytes" where
  "lambdahttp_getMessageHashForSigning L req =
     (let httpInfo = HTTP req;
          buf = WriteString [] (Method httpInfo);
          buf = WriteString buf (Path httpInfo);
          buf = WriteString buf (RawQueryString req);
          buf = WriteString buf (GetHeader L (Headers req) (KeyTraceID L));
          buf = WriteString buf (GetHeader L (Headers req) (KeyTimestamp L))
      in slice_of (md5_Sum L buf))"

definition lambda_getMessageHashForSigning :: "lib \<Rightarrow> request \<Rightarrow> bytes" where
  "lambda_getMessageHashForSigning L req =
     (let httpInfo = HTTP req;
          buf = WriteString [] (Method httpInfo);
          buf = WriteString buf (Path httpInfo);
          buf = WriteString buf (RawQueryString req);
          buf = WriteString buf (GetHeader L (Headers req) (KeyContentType L));
          buf = WriteString buf (GetHeader L (Headers req) (KeyAppID L));
          buf = WriteString buf (GetHeader L (Headers req) (KeyClientID L));
          buf = WriteString buf (GetHeader L (Headers req) (KeyTimestamp L));
          buf = WriteString buf (GetHeader L (Headers req) (KeyAuthorization L))
      in slice_of (sha256_Sum256 L buf))"

section \<open>The request verifier\<close>

text \<open>
  \<^verbatim>\<open>CreateRequestVerifier\<close> returns a handler. The two packages differ in the digest
  only, so the handler is written once over the digest function.
\<close>

definition RequestVerifier :: "(lib \<Rightarrow> request \<Rightarrow> bytes) \<Rightarrow> lib \<Rightarrow> PublicKey \<Rightarrow> 'w Func" where
  "RequestVerifier digest L pubKey c req w =
     (case CheckTimestamp L (Headers req) of
        Some err \<Rightarrow> (Returned (Some (Error err)), w)
      | None \<Rightarrow>
          (case DecodeSign L (Headers req) of
             Inl err \<Rightarrow> (Returned (Some (Error err)), w)
           | Inr sign \<Rightarrow>
               (let hash = digest L req
                in if VerifyASN1 L pubKey hash sign then Next c req w
                   else (Returned (Some (Error (NotAcceptable ''invalid signature''))), w))))"

definition lambda_CreateRequestVerifier :: "lib \<Rightarrow> PublicKey \<Rightarrow> 'w Func" where
  "lambda_CreateRequestVerifier = RequestVerifier lambda_getMessageHashForSigning"

definition lambdahttp_CreateRequestVerifier :: "lib \<Rightarrow> PublicKey \<Rightarrow> 'w Func" where
  "lambdahttp_CreateRequestVerifier = RequestVerifier lambdahttp_getMessageHashForSigning"

section \<open>The S3 bucket wrapper\<close>

text \<open>
  Go errors as the wrapper sees them: an error that implements \<^verbatim>\<open>smithy.APIError\<close>
  (its code and message), any other error, \<^verbatim>\<open>fmt.Errorf("<op>: %w", err)\<close> around an
  error, and the error of \<^verbatim>\<open>BatchDelete\<close> that lists the keys left in its set. Go
  ranges over a map in no fixed order, so the listed keys are kept as a set.
\<close>

datatype go_error =
    APIError string string
  | OtherError string
  | Errorf string go_error
  | IdsNotDeleted "string set"

text \<open>The type assertion \<^verbatim>\<open>err.(smithy.APIError)\<close> followed by \<^verbatim>\<open>ErrorCode()\<close>.\<close>

fun ErrorCode :: "go_error \<Rightarrow> string option" where
  "ErrorCode (APIError code m) = Some code"
| "ErrorCode e = None"

text \<open>
  The storage service, as the answers it gives: \<^verbatim>\<open>HeadObject\<close> (bucket, key) fails or
  yields the object's metadata, \<^verbatim>\<open>DeleteObjects\<close> (bucket, keys) fails or yields the
  list of deleted objects, whose \<open>Key\<close> is a pointer and may be nil, and the waiter
  (bucket, key, maximal wait in nanoseconds) fails or not. The calls a wrapper function
  makes are recorded in order.
\<close>

record DeletedObject =
  Key :: "string option"

record s3_Client =
  HeadObject :: "string \<Rightarrow> string \<Rightarrow> go_error + (string \<rightharpoonup> string)"
  DeleteObjects :: "string \<Rightarrow> string list \<Rightarrow> go_error + DeletedObject list"
  ObjectNotExistsWait :: "string \<Rightarrow> string \<Rightarrow> nat \<Rightarrow> go_error option"

datatype s3_call =
    Call_DeleteObjects string "string list"
  | Call_Wait string string nat

record S3Bucket =
  bucket :: string
  client :: s3_Client

definition time_Second :: nat where
  "time_Second = 1000000000"

definition getHeadObject :: "S3Bucket \<Rightarrow> string \<Rightarrow> go_error + (string \<rightharpoonup> string)" where
  "getHeadObject s ident = HeadObject (client s) (bucket s) ident"

text \<open>
  \<^verbatim>\<open>Exists\<close>. \<^verbatim>\<open>errors.Cause\<close> is the error library's, a parameter: it maps the error
  of the call (nil: \<open>None\<close>) to its cause.
\<close>

definition Exists ::
  "(go_error option \<Rightarrow> go_error option) \<Rightarrow> S3Bucket \<Rightarrow> string \<Rightarrow> bool \<times> go_error option" where
  "Exists Cause s ident =
     (let err = (case getHeadObject s ident of Inl e \<Rightarrow> Some e | Inr out \<Rightarrow> None);
          err = Cause err
      in case err of
           None \<Rightarrow> (True, None)
         | Some e \<Rightarrow>
             (case ErrorCode e of
                Some code \<Rightarrow> if code = ''NotFound'' then (False, None) else (False, Some e)
              | None \<Rightarrow> (False, Some e)))"

text \<open>
  The loop of \<^verbatim>\<open>BatchDelete\<close> over the deleted objects: each key is removed from the
  set; dereferencing a nil key panics.
\<close>

fun delete_keys :: "string set \<Rightarrow> DeletedObject list \<Rightarrow> string set outcome" where
  "delete_keys idSet [] = Returned idSet"
| "delete_keys idSet (del # dels) =
     (case Key del of
        None \<Rightarrow> Panicked nil_dereference
      | Some k \<Rightarrow> delete_keys (idSet - {k}) dels)"

text \<open>The end of \<^verbatim>\<open>BatchDelete\<close>: the wait for the absence of one key, five seconds at most.\<close>

definition BatchDelete_wait ::
  "S3Bucket \<Rightarrow> string \<Rightarrow> s3_call list \<Rightarrow> go_error option outcome \<times> s3_call list" where
  "BatchDelete_wait s ident calls =
     (case ObjectNotExistsWait (client s) (bucket s) ident (time_Second * 5) of
        Some err \<Rightarrow>
          (Returned (Some (Errorf ''s3.ObjectNotExistsWaiter.Wait'' err)),
           calls @ [Call_Wait (bucket s) ident (time_Second * 5)])
      | None \<Rightarrow> (Returned None, calls @ [Call_Wait (bucket s) ident (time_Second * 5)]))"

definition BatchDelete :: "S3Bucket \<Rightarrow> string list \<Rightarrow> go_error option outcome \<times> s3_call list" where
  "BatchDelete s ids =
     (case ids of
        [] \<Rightarrow> (Returned None, [])
      | id0 # others \<Rightarrow>
          (let calls = [Call_DeleteObjects (bucket s) ids]
           in case DeleteObjects (client s) (bucket s) ids of
                Inl err \<Rightarrow> (Returned (Some (Errorf ''s3.DeleteObjects'' err)), calls)
              | Inr Deleted \<Rightarrow>
                  if length Deleted = 0 then (Returned None, calls)
                  else if length Deleted \<noteq> length ids then
                    (case delete_keys (set ids) Deleted of
                       Panicked v \<Rightarrow> (Panicked v, calls)
                     | Returned idSet \<Rightarrow>
                         if idSet \<noteq> {} then (Returned (Some (IdsNotDeleted idSet)), calls)
                         else BatchDelete_wait s id0 calls)
                  else BatchDelete_wait s id0 calls))"

section \<open>The canonicalization profiles of the specification\<close>

text \<open>
  The specification's two profiles, in its words: the method, the path, the raw query
  string, then the fixed list of header values, trace-id and timestamp for one,
  content-type, app-id, client-id, timestamp and authorization for the other. The
  functions of the source are compared with these below.
\<close>

definition lambdahttp_profile :: "lib \<Rightarrow> request \<Rightarrow> string list" where
  "lambdahttp_profile L req =
     [Method (HTTP req), Path (HTTP req), RawQueryString req,
      GetHeader L (Headers req) (KeyTraceID L),
      GetHeader L (Headers req) (KeyTimestamp L)]"

definition lambda_profile :: "lib \<Rightarrow> request \<Rightarrow> string list" where
  "lambda_profile L req =
     [Method (HTTP req), Path (HTTP req), RawQueryString req,
      GetHeader L (Headers req) (KeyContentType L),
      GetHeader L (Headers req) (KeyAppID L),
      GetHeader L (Headers req) (KeyClientID L),
      GetHeader L (Headers req) (KeyTimestamp L),
      GetHeader L (Headers req) (KeyAuthorization L)]"

section \<open>Instances for the closed examples\<close>

text \<open>
  A library instance, a router with the single route \<^verbatim>\<open>GET /items/42\<close>, handlers that
  record their invocation in the world (a list of names), and a storage service that
  deletes every key but the locked ones. The closed theorems below evaluate the
  definitions on these.
\<close>

definition example_lib :: lib where
  "example_lib =
     \<lparr>KeyContentType = ''Content-Type'',
      KeyAppID = ''X-App-Id'',
      KeyClientID = ''X-Client-Id'',
      KeyTimestamp = ''X-Timestamp'',
      KeyAuthorization = ''Authorization'',
      KeyTraceID = ''X-Trace-Id'',
      GetHeader = (\<lambda>h k. case h k of None \<Rightarrow> [] | Some v \<Rightarrow> v),
      CheckTimestamp =
        (\<lambda>h. case h ''X-Timestamp'' of
               None \<Rightarrow> Some (NotAcceptable ''missing timestamp'')
             | Some t \<Rightarrow> if t = ''now'' then None else Some (NotAcceptable ''outdated'')),
      DecodeSign =
        (\<lambda>h. case h ''X-Sign'' of
               None \<Rightarrow> Inl (Coded 400 ''missing signature'')
             | Some v \<Rightarrow>
                 if v = ''good'' then Inr [42]
                 else if v = ''forged'' then Inr [7]
                 else Inl (Coded 400 ''malformed signature'')),
      VerifyASN1 = (\<lambda>k hash sign. sign = [42]),
      md5_Sum = (\<lambda>m. of_nat (length m)),
      sha256_Sum256 = (\<lambda>m. of_nat (length m)),
      ToString = (\<lambda>h. ''{}''),
      BuildContext = (\<lambda>req. ''trace-1'')\<rparr>"

definition example_request :: "string \<Rightarrow> string \<Rightarrow> string \<Rightarrow> headers \<Rightarrow> request" where
  "example_request m p agent h =
     \<lparr>RawPath = p, RawQueryString = [], Headers = h,
      HTTP = \<lparr>Method = m, Path = p, UserAgent = agent, SourceIP = ''10.0.0.1''\<rparr>\<rparr>"

definition example_router :: "'w Func \<Rightarrow> 'w Router" where
  "example_router h =
     \<lparr>Match = (\<lambda>m p. if m = ''GET'' \<and> p = ''/items/42'' then Some (h, []) else None),
      ChainEnd = (\<lambda>req w. (Returned None, w))\<rparr>"

definition panicking :: "panic_value \<Rightarrow> string list Func" where
  "panicking v c req w = (Panicked v, w @ [''handler''])"

definition silent :: "string list Func" where
  "silent c req w = (Returned None, w @ [''handler''])"

definition example_ctx :: "string list ctx" where
  "example_ctx =
     \<lparr>TraceID = ''trace-1'',
      NextHandler = (\<lambda>req w. (Returned (Some \<lparr>StatusCode = 200, RespHeaders = None, Body = ''ok''\<rparr>),
                               w @ [''next'']))\<rparr>"

definition example_key :: PublicKey where
  "example_key = \<lparr>Curve = ''P-256'', X = 1, Y = 2\<rparr>"

definition signed_headers :: "string \<Rightarrow> string \<Rightarrow> headers" where
  "signed_headers t v = [''X-Timestamp'' \<mapsto> t, ''X-Trace-Id'' \<mapsto> ''trace-1'', ''X-Sign'' \<mapsto> v]"

definition example_bucket :: "string list \<Rightarrow> S3Bucket" where
  "example_bucket locked =
     \<lparr>bucket = ''files'',
      client =
        \<lparr>HeadObject =
           (\<lambda>b k. if k = ''a'' then Inr Map.empty
                   else if k = ''secret'' then Inl (APIError ''Forbidden'' ''Forbidden'')
                   else Inl (Errorf ''operation error S3: HeadObject''
                              (APIError ''NotFound'' ''Not Found''))),
         DeleteObjects =
           (\<lambda>b ks. Inr (map (\<lambda>k. \<lparr>Key = Some k\<rparr>) (filter (\<lambda>k. k \<notin> set locked) ks))),
         ObjectNotExistsWait = (\<lambda>b k d. None)\<rparr>\<rparr>"

fun root_cause :: "go_error option \<Rightarrow> go_error option" where
  "root_cause None = None"
| "root_cause (Some (Errorf p e)) = root_cause (Some e)"
| "root_cause (Some e) = Some e"

section \<open>Properties of Router.Handle\<close>

lemma Handle_body_unmatched:
  "Match r (Method (HTTP req)) (RawPath req) = None \<Longrightarrow>
   Handle_body m r t req w = (Returned (Some (Error (NotFound m))), w)"
  by (simp add: Handle_body_def)

lemma Handle_body_matched:
  "Match r (Method (HTTP req)) (RawPath req) = Some (h, rest) \<Longrightarrow>
   h (WithNextHandler r t rest) req w = (out, w') \<Longrightarrow>
   Handle_body m r t req w =
     (case out of Panicked v \<Rightarrow> Panicked v
      | Returned None \<Rightarrow> Returned (Some (Error (NotImplemented ''no response from handler'')))
      | Returned (Some resp) \<Rightarrow> Returned (Some resp), w')"
  by (simp add: Handle_body_def split: outcome.splits option.splits)

lemma Error_Coded: "Error (Coded code m) = \<lparr>StatusCode = code, RespHeaders = None, Body = m\<rparr>"
  by (simp add: Error_def)

text \<open>
  On every path where the body of \<^verbatim>\<open>Handle\<close> returns, the deferred function leaves a
  header map that holds the trace identifier under the trace key.
\<close>

lemma Handle_complete_traced:
  "Handle_complete L okMsg failMsg t (Some resp) = (res, lg) \<Longrightarrow>
   \<exists>resp' h. res = Returned resp' \<and> RespHeaders resp' = Some h \<and> h (KeyTraceID L) = Some t
     \<and> StatusCode resp' = StatusCode resp \<and> Body resp' = Body resp"
  by (auto simp: SetTraceID_def)

text \<open>
  On the recovery path the deferred function returns the error response as
  \<^verbatim>\<open>Error\<close> built it: nothing is added to its headers.
\<close>

lemma Handle_recovered:
  assumes "Match r (Method (HTTP req)) (RawPath req) = Some (h, rest)"
    and "h (WithNextHandler r (BuildContext L req) rest) req w = (Panicked (PanicValue v), w')"
  shows "result (lambda_Handle L r req w) = Returned (Error (errors_New v))"
    and "result (lambdahttp_Handle L r req w) = Returned (Error (errors_New v))"
  using assms
  by (simp_all add: lambda_Handle_def lambdahttp_Handle_def Handle_body_matched)

text \<open>
  C7. A method and path that match no route: \<^verbatim>\<open>Handle\<close> of either package returns the
  not-found response (status 404, the trace identifier in its headers), and the world
  is as it was: no handler ran.
\<close>

theorem Handle_unmatched_NotFound:
  assumes "Match r (Method (HTTP req)) (RawPath req) = None"
  shows "result (lambda_Handle L r req w) =
           Returned \<lparr>StatusCode = 404,
                     RespHeaders = Some [KeyTraceID L \<mapsto> BuildContext L req],
                     Body = ''endpoint not found''\<rparr>
       \<and> world (lambda_Handle L r req w) = w
       \<and> result (lambdahttp_Handle L r req w) =
           Returned \<lparr>StatusCode = 404,
                     RespHeaders = Some [KeyTraceID L \<mapsto> BuildContext L req],
                     Body = ''endpoint not found: '' @ Method (HTTP req) @ '' '' @ RawPath req\<rparr>
       \<and> world (lambdahttp_Handle L r req w) = w"
  using assms
  by (simp add: lambda_Handle_def lambdahttp_Handle_def Handle_body_unmatched
       Error_def NotFound_def SetTraceID_def)

theorem Handle_unmatched_NotFound_witness:
  "Match (example_router silent) ''GET'' ''/nowhere'' = None
   \<and> result (lambda_Handle example_lib (example_router silent)
        (example_request ''GET'' ''/nowhere'' ''curl'' Map.empty) []) =
      Returned \<lparr>StatusCode = 404, RespHeaders = Some [''X-Trace-Id'' \<mapsto> ''trace-1''],
                Body = ''endpoint not found''\<rparr>
   \<and> world (lambda_Handle example_lib (example_router silent)
        (example_request ''GET'' ''/nowhere'' ''curl'' Map.empty) []) = []
   \<and> result (lambdahttp_Handle example_lib (example_router silent)
        (example_request ''GET'' ''/nowhere'' ''curl'' Map.empty) []) =
      Returned \<lparr>StatusCode = 404, RespHeaders = Some [''X-Trace-Id'' \<mapsto> ''trace-1''],
                Body = ''endpoint not found: GET /nowhere''\<rparr>
   \<and> world (lambdahttp_Handle example_lib (example_router silent)
        (example_request ''GET'' ''/nowhere'' ''curl'' Map.empty) []) = []"
proof -
  have m: "Match (example_router silent)
             (Method (HTTP (example_request ''GET'' ''/nowhere'' ''curl'' Map.empty)))
             (RawPath (example_request ''GET'' ''/nowhere'' ''curl'' Map.empty)) = None"
    by (simp add: example_router_def example_request_def)
  from Handle_unmatched_NotFound [OF m, of example_lib "[]"] m show ?thesis
    by (simp add: example_lib_def example_request_def)
qed

text \<open>
  C8. A matched handler chain that returns a nil response: \<^verbatim>\<open>Handle\<close> of either package
  returns the not-implemented response (status 501), not nil.
\<close>

theorem Handle_nil_response_NotImplemented:
  assumes "Match r (Method (HTTP req)) (RawPath req) = Some (h, rest)"
    and "h (WithNextHandler r (BuildContext L req) rest) req w = (Returned None, w')"
  shows "result (lambda_Handle L r req w) =
           Returned \<lparr>StatusCode = 501,
                     RespHeaders = Some [KeyTraceID L \<mapsto> BuildContext L req],
                     Body = ''no response from handler''\<rparr>
       \<and> result (lambdahttp_Handle L r req w) =
           Returned \<lparr>StatusCode = 501,
                     RespHeaders = Some [KeyTraceID L \<mapsto> BuildContext L req],
                     Body = ''no response from handler''\<rparr>"
  using assms
  by (simp add: lambda_Handle_def lambdahttp_Handle_def Handle_body_matched
       Error_def NotImplemented_def SetTraceID_def)

theorem Handle_nil_response_NotImplemented_witness:
  "result (lambda_Handle example_lib (example_router silent)
        (example_request ''GET'' ''/items/42'' ''curl'' Map.empty) []) =
      Returned \<lparr>StatusCode = 501, RespHeaders = Some [''X-Trace-Id'' \<mapsto> ''trace-1''],
                Body = ''no response from handler''\<rparr>
   \<and> result (lambdahttp_Handle example_lib (example_router silent)
        (example_request ''GET'' ''/items/42'' ''curl'' Map.empty) []) =
      Returned \<lparr>StatusCode = 501, RespHeaders = Some [''X-Trace-Id'' \<mapsto> ''trace-1''],
                Body = ''no response from handler''\<rparr>"
proof -
  have m: "Match (example_router silent)
             (Method (HTTP (example_request ''GET'' ''/items/42'' ''curl'' Map.empty)))
             (RawPath (example_request ''GET'' ''/items/42'' ''curl'' Map.empty)) = Some (silent, [])"
    by (simp add: example_router_def example_request_def)
  have h: "silent (WithNextHandler (example_router silent)
              (BuildContext example_lib (example_request ''GET'' ''/items/42'' ''curl'' Map.empty)) [])
            (example_request ''GET'' ''/items/42'' ''curl'' Map.empty) [] = (Returned None, [''handler''])"
    by (simp add: silent_def)
  from Handle_nil_response_NotImplemented [OF m h] show ?thesis
    by (simp add: example_lib_def)
qed

text \<open>
  C1. The claim asks for a header map with the trace identifier on every response,
  the recovered one included. Evaluated on a handler that panics with the value
  \<^verbatim>\<open>boom\<close>: the deferred function returns right after the recovery, so the response
  of either package is the error response as it was built, with no header map and no
  trace identifier.
\<close>

theorem Handle_recovered_panic_has_no_trace_header:
  "result (lambda_Handle example_lib (example_router (panicking (PanicValue ''boom'')))
        (example_request ''GET'' ''/items/42'' ''curl'' Map.empty) []) =
      Returned \<lparr>StatusCode = 500, RespHeaders = None, Body = ''boom''\<rparr>
   \<and> result (lambdahttp_Handle example_lib (example_router (panicking (PanicValue ''boom'')))
        (example_request ''GET'' ''/items/42'' ''curl'' Map.empty) []) =
      Returned \<lparr>StatusCode = 500, RespHeaders = None, Body = ''boom''\<rparr>"
  by (simp add: lambda_Handle_def lambdahttp_Handle_def Handle_body_def example_router_def
        example_request_def panicking_def Error_def errors_New_def)

text \<open>
  C2. The claim asks that no panic of the handler chain leaves \<^verbatim>\<open>Handle\<close>. Evaluated
  on a handler that calls \<^verbatim>\<open>panic(nil)\<close>: \<^verbatim>\<open>recover()\<close> yields nil, the deferred
  function takes the path of a normal return and dereferences the nil \<open>resp\<close>, and
  \<^verbatim>\<open>Handle\<close> of either package panics.
\<close>

theorem Handle_nil_panic_escapes:
  "result (lambda_Handle example_lib (example_router (panicking PanicNil))
        (example_request ''GET'' ''/items/42'' ''curl'' Map.empty) []) =
      Panicked nil_dereference
   \<and> result (lambdahttp_Handle example_lib (example_router (panicking PanicNil))
        (example_request ''GET'' ''/items/42'' ''curl'' Map.empty) []) =
      Panicked nil_dereference"
  by (simp add: lambda_Handle_def lambdahttp_Handle_def Handle_body_def example_router_def
        example_request_def panicking_def)

end
